theory Spec2Isabelle
  imports Complex_Main
begin

section \<open>The Node.js backend\<close>

text \<open>
  The backend is an Express application over one MongoDB collection (the Mongoose model
  \<open>ScanRecord\<close>) with one outbound call to the Python inference API. The routes
  modelled are \<open>POST /api/diagnose\<close>, \<open>GET /api/history\<close>, \<open>GET /api/analytics\<close>
  and \<open>DELETE /api/history/:scanId\<close>.
  The collection is modelled as the list of its documents in insertion order. Counts and
  timestamps are integers; a confidence or probability is the rational a double stands
  for. Where a handler computes with numbers (the paging of the history, the percentage
  of the analytics), the result is rounded as IEEE double arithmetic rounds it, with
  \<open>NaN\<close> and the infinities written out. Everything the handlers read from outside
  (the upstream answer, the generated identifier, the clock, whether the database
  accepts a write, the order in which the store returns equal sort keys) is an explicit
  input.
\<close>

subsection \<open>Data\<close>

text \<open>The JSON body of the Python API's answer; every field may be missing.\<close>

record ai_result =
  predicted_class :: "string option"
  confidence :: "rat option"
  severity :: "string option"
  probabilities :: "(string \<times> rat) list option"
  affected_regions :: "string list option"
  recommendations :: "string list option"
  demo_mode :: "bool option"

text \<open>The \<open>patient\<close> sub-document of \<open>patientSchema\<close>.\<close>

record patient =
  fullName :: "string option"
  age :: "int option"
  gender :: "string option"
  phone :: "string option"
  email :: "string option"
  symptoms :: "string list"
  otherSymptoms :: "string option"
  existingConditions :: "string option"

definition empty_patient :: patient where
  "empty_patient = \<lparr>fullName = None, age = None, gender = None, phone = None, email = None,
     symptoms = [], otherSymptoms = None, existingConditions = None\<rparr>"

text \<open>
  A document of the collection: \<open>scanId\<close>, \<open>patient\<close>, the fields of \<open>result\<close>, the
  fields of \<open>imageMeta\<close> (the schema spells the last one \<open>sizeByes\<close>) and \<open>createdAt\<close>
  in milliseconds. A field of the schema type \<open>[String]\<close> is always an array in a
  stored document: Mongoose puts the empty array where none is given.
\<close>

record scan_record =
  scanId :: string
  rec_patient :: patient
  predictedClass :: "string option"
  rec_confidence :: "rat option"
  rec_severity :: "string option"
  rec_probabilities :: "(string \<times> rat) list option"
  affectedRegions :: "string list"
  rec_recommendations :: "string list"
  demoMode :: "bool option"
  originalName :: string
  rec_mimetype :: string
  sizeByes :: nat
  createdAt :: int

text \<open>The file multer hands to the handler as \<open>req.file\<close> (its bytes are never inspected).\<close>

record upload_file =
  originalname :: string
  mimetype :: string
  size_bytes :: nat

text \<open>
  The form field \<open>patientData\<close>: missing or empty, a string \<open>JSON.parse\<close> rejects, or
  the object it parses to.
\<close>

datatype patient_field = PD_absent | PD_malformed | PD_parsed patient

record diagnose_req =
  req_file :: "upload_file option"
  req_patientData :: patient_field

text \<open>
  What \<open>callPythonAPI\<close> does: it throws (network error, timeout, non-2xx status), or it
  returns \<open>response.data\<close>, which is \<open>None\<close> for a \<open>null\<close> body.
\<close>

datatype upstream_outcome = Upstream_throws string | Upstream_data "ai_result option"

record diag_env =
  upstream :: upstream_outcome
  uuid :: string
  db_create_ok :: bool
  now_db :: int
  now_res :: int

datatype log_line =
    Log_ai_failed string
  | Log_db_saved string
  | Log_db_failed
  | Log_diagnose_error
  | Log_error string

record server =
  store :: "scan_record list"
  upstream_calls :: nat
  logs :: "log_line list"

text \<open>The body of the success answer of \<open>POST /api/diagnose\<close>.\<close>

record diagnosis_response =
  res_scanId :: string
  res_predicted_class :: "string option"
  res_confidence :: "rat option"
  res_severity :: string
  res_probabilities :: "(string \<times> rat) list option"
  res_affected_regions :: "string list option"
  res_recommendations :: "string list option"
  res_demo_mode :: bool
  res_created_at :: int

text \<open>An answer: \<open>res.status(n).json({error: msg})\<close>, or \<open>res.json(body)\<close> with status 200.\<close>

datatype 'a reply = Reply_error nat string | Reply_ok 'a

subsection \<open>Helpers\<close>

text \<open>JavaScript truthiness of an optional string: \<open>undefined\<close> and \<open>''\<close> are falsy.\<close>

definition falsy :: "'a list option \<Rightarrow> bool" where
  "falsy v = (case v of None \<Rightarrow> True | Some s \<Rightarrow> s = [])"

text \<open>\<open>_inferSeverity(cls)\<close>.\<close>

definition inferSeverity :: "string option \<Rightarrow> string" where
  "inferSeverity cls =
     (if falsy cls \<or> cls = Some ''Normal'' then ''Low''
      else if cls \<in> set [Some ''Tuberculosis'', Some ''COVID-19''] then ''High''
      else ''Medium'')"

text \<open>\<open>aiResult.severity || _inferSeverity(aiResult.predicted_class)\<close>.\<close>

definition response_severity :: "ai_result \<Rightarrow> string" where
  "response_severity ai =
     (case severity ai of
        None \<Rightarrow> inferSeverity (predicted_class ai)
      | Some v \<Rightarrow> if v = [] then inferSeverity (predicted_class ai) else v)"

subsection \<open>The upload middleware\<close>

datatype multer_error = Filter_rejected string | LIMIT_FILE_SIZE

definition allowed_types :: "string list" where
  "allowed_types = [''image/jpeg'', ''image/png'', ''image/webp'']"

text \<open>
  \<open>upload.single('image')\<close> with the \<open>fileFilter\<close> and the size limit of
  \<open>MAX_MB * 1024 * 1024\<close> bytes. A request without the field passes with no file.
\<close>

definition upload_single :: "nat \<Rightarrow> upload_file option \<Rightarrow> multer_error + upload_file option" where
  "upload_single max_mb f =
     (case f of
        None \<Rightarrow> Inr None
      | Some u \<Rightarrow>
          if mimetype u \<notin> set allowed_types then Inl (Filter_rejected (mimetype u))
          else if size_bytes u > max_mb * 1024 * 1024 then Inl LIMIT_FILE_SIZE
          else Inr (Some u))"

subsection \<open>POST /api/diagnose\<close>

text \<open>
  The document \<open>ScanRecord.create\<close> stores for the object it is called with;
  \<open>createdAt\<close> and the empty arrays are the schema's defaults.
\<close>

definition new_record :: "diag_env \<Rightarrow> patient \<Rightarrow> upload_file \<Rightarrow> ai_result \<Rightarrow> scan_record" where
  "new_record env p f ai =
     \<lparr>scanId = uuid env, rec_patient = p,
      predictedClass = predicted_class ai,
      rec_confidence = confidence ai,
      rec_severity = severity ai,
      rec_probabilities = probabilities ai,
      affectedRegions = (case affected_regions ai of None \<Rightarrow> [] | Some xs \<Rightarrow> xs),
      rec_recommendations = (case recommendations ai of None \<Rightarrow> [] | Some xs \<Rightarrow> xs),
      demoMode = demo_mode ai,
      originalName = originalname f, rec_mimetype = mimetype f, sizeByes = size_bytes f,
      createdAt = now_db env\<rparr>"

definition make_response :: "diag_env \<Rightarrow> ai_result \<Rightarrow> diagnosis_response" where
  "make_response env ai =
     \<lparr>res_scanId = uuid env,
      res_predicted_class = predicted_class ai,
      res_confidence = confidence ai,
      res_severity = response_severity ai,
      res_probabilities = probabilities ai,
      res_affected_regions = affected_regions ai,
      res_recommendations = recommendations ai,
      res_demo_mode = (case demo_mode ai of None \<Rightarrow> False | Some b \<Rightarrow> b),
      res_created_at = now_res env\<rparr>"

text \<open>The \<open>try\<close> block around \<open>ScanRecord.create\<close>: the write, or a warning in the log.\<close>

definition persist :: "diag_env \<Rightarrow> scan_record \<Rightarrow> server \<Rightarrow> server" where
  "persist env r s =
     (if db_create_ok env
      then s\<lparr>store := store s @ [r], logs := logs s @ [Log_db_saved (scanId r)]\<rparr>
      else s\<lparr>logs := logs s @ [Log_db_failed]\<rparr>)"

text \<open>
  The handler after the middleware. A \<open>null\<close> body makes the property reads throw: the
  first inside the inner \<open>try\<close> (a warning), the second in \<open>res.json\<close> (the outer
  \<open>catch\<close>, status 500).
\<close>

definition diagnose_handler :: "diag_env \<Rightarrow> upload_file option \<Rightarrow> patient_field \<Rightarrow> server
    \<Rightarrow> diagnosis_response reply \<times> server" where
  "diagnose_handler env file pd s =
     (case file of
        None \<Rightarrow> (Reply_error 400 ''Image file is required (field name: image)'', s)
      | Some f \<Rightarrow>
          (case pd of
             PD_malformed \<Rightarrow> (Reply_error 400 ''patientData must be valid JSON'', s)
           | _ \<Rightarrow>
               let p = (case pd of PD_parsed q \<Rightarrow> q | _ \<Rightarrow> empty_patient);
                   s1 = s\<lparr>upstream_calls := upstream_calls s + 1\<rparr>
               in (case upstream env of
                     Upstream_throws msg \<Rightarrow>
                       (Reply_error 502
                          ''AI inference service is unavailable. Please ensure the Python API is running.'',
                        s1\<lparr>logs := logs s1 @ [Log_ai_failed msg]\<rparr>)
                   | Upstream_data None \<Rightarrow>
                       (Reply_error 500 ''Internal server error'',
                        s1\<lparr>logs := logs s1 @ [Log_db_failed, Log_diagnose_error]\<rparr>)
                   | Upstream_data (Some ai) \<Rightarrow>
                       (Reply_ok (make_response env ai), persist env (new_record env p f ai) s1))))"

text \<open>A number in decimal, as a template literal prints it.\<close>

function show_nat :: "nat \<Rightarrow> string" where
  "show_nat n =
     (if n < 10 then [char_of (48 + n)]
      else show_nat (n div 10) @ [char_of (48 + n mod 10)])"
  by pat_completeness auto
termination
  by (relation "measure (\<lambda>n. n)") auto

text \<open>The route: middleware, then the handler or the error handler at the end of the file.\<close>

definition diagnose :: "nat \<Rightarrow> diag_env \<Rightarrow> diagnose_req \<Rightarrow> server
    \<Rightarrow> diagnosis_response reply \<times> server" where
  "diagnose max_mb env req s =
     (case upload_single max_mb (req_file req) of
        Inl LIMIT_FILE_SIZE \<Rightarrow>
          (Reply_error 413 (''File too large. Maximum is '' @ show_nat max_mb @ '' MB.''), s)
      | Inl (Filter_rejected t) \<Rightarrow>
          (Reply_error 500 (''Only JPEG, PNG, or WebP images are accepted (got '' @ t @ '')''),
           s\<lparr>logs := logs s @ [Log_error t]\<rparr>)
      | Inr file \<Rightarrow> diagnose_handler env file (req_patientData req) s)"

subsection \<open>JavaScript numbers\<close>

text \<open>
  A number is an IEEE double: a rational that is representable, an infinity (\<open>True\<close>
  for the positive one) or \<open>NaN\<close>. The sign of zero is not kept; it shows in no answer,
  since JSON writes \<open>-0\<close> as \<open>0\<close>.
\<close>

datatype js_num = Num rat | Infinity bool | NaN

text \<open>The number of binary digits of a positive integer.\<close>

function bit_length :: "int \<Rightarrow> int" where
  "bit_length n = (if n \<le> 0 then 0 else 1 + bit_length (n div 2))"
  by pat_completeness auto
termination
  by (relation "measure (\<lambda>n. nat n)") auto

definition pow2 :: "int \<Rightarrow> rat" where
  "pow2 k = (if 0 \<le> k then 2 ^ nat k else 1 / 2 ^ nat (- k))"

text \<open>For \<open>a > 0\<close>, the exponent \<open>e\<close> with \<open>2 ^ e \<le> a < 2 ^ (e + 1)\<close>.\<close>

definition log2_floor :: "rat \<Rightarrow> int" where
  "log2_floor a =
     (let (n, d) = quotient_of a;
          k = bit_length n - bit_length d
      in if pow2 k \<le> a then k else k - 1)"

definition round_half_even :: "rat \<Rightarrow> int" where
  "round_half_even m =
     (let f = \<lfloor>m\<rfloor>; r = m - of_int f
      in if r < 1 / 2 then f else if 1 / 2 < r then f + 1 else if even f then f else f + 1)"

text \<open>
  The double nearest to a real number, ties to the even significand: 53 significant
  bits, exponents from -1022 (below which the spacing stays \<open>2 ^ -1074\<close>) to 1023, and
  an infinity for what rounds to \<open>2 ^ 1024\<close> or more. Every result of an arithmetic
  operation of the handlers is the exact result rounded so.
\<close>

definition fl :: "rat \<Rightarrow> js_num" where
  "fl x =
     (if x = 0 then Num 0
      else
        let a = \<bar>x\<bar>;
            e = max (log2_floor a) (- 1022);
            q = round_half_even (a / pow2 (e - 52))
        in if 1024 \<le> e \<or> (e = 1023 \<and> 2 ^ 53 \<le> q) then Infinity (0 < x)
           else Num ((if 0 < x then 1 else - 1) * of_int q * pow2 (e - 52)))"

text \<open>\<open>Math.max\<close>, \<open>Math.min\<close>, \<open>-\<close> and \<open>*\<close>.\<close>

fun js_max :: "js_num \<Rightarrow> js_num \<Rightarrow> js_num" where
  "js_max NaN y = NaN"
| "js_max x NaN = NaN"
| "js_max (Infinity True) y = Infinity True"
| "js_max x (Infinity True) = Infinity True"
| "js_max (Infinity False) y = y"
| "js_max x (Infinity False) = x"
| "js_max (Num v) (Num w) = Num (max v w)"

fun js_min :: "js_num \<Rightarrow> js_num \<Rightarrow> js_num" where
  "js_min NaN y = NaN"
| "js_min x NaN = NaN"
| "js_min (Infinity False) y = Infinity False"
| "js_min x (Infinity False) = Infinity False"
| "js_min (Infinity True) y = y"
| "js_min x (Infinity True) = x"
| "js_min (Num v) (Num w) = Num (min v w)"

fun js_sub :: "js_num \<Rightarrow> js_num \<Rightarrow> js_num" where
  "js_sub NaN y = NaN"
| "js_sub x NaN = NaN"
| "js_sub (Infinity b) (Infinity c) = (if b = c then NaN else Infinity b)"
| "js_sub (Infinity b) (Num w) = Infinity b"
| "js_sub (Num v) (Infinity c) = Infinity (\<not> c)"
| "js_sub (Num v) (Num w) = fl (v - w)"

fun js_mul :: "js_num \<Rightarrow> js_num \<Rightarrow> js_num" where
  "js_mul NaN y = NaN"
| "js_mul x NaN = NaN"
| "js_mul (Infinity b) (Infinity c) = Infinity (b = c)"
| "js_mul (Infinity b) (Num w) = (if w = 0 then NaN else Infinity (b = (0 < w)))"
| "js_mul (Num v) (Infinity c) = (if v = 0 then NaN else Infinity (c = (0 < v)))"
| "js_mul (Num v) (Num w) = fl (v * w)"

text \<open>\<open>Math.round\<close>: the nearest integer, a half going up.\<close>

definition math_round :: "js_num \<Rightarrow> js_num" where
  "math_round x = (case x of Num v \<Rightarrow> Num (of_int \<lfloor>v + 1 / 2\<rfloor>) | _ \<Rightarrow> x)"

text \<open>What \<open>res.json\<close> writes for a number: the number, or \<open>null\<close> when it is not finite.\<close>

definition json_number :: "js_num \<Rightarrow> rat option" where
  "json_number x = (case x of Num v \<Rightarrow> Some v | _ \<Rightarrow> None)"

subsection \<open>GET /api/history\<close>

text \<open>
  The query string. \<open>page\<close> and \<open>limit\<close> are given by their UTF-16 code units, the
  characters \<open>parseInt\<close> reads. \<open>dateFrom\<close> and \<open>dateTo\<close>, when not empty, are given
  by what \<open>new Date(...)\<close> makes of them: a time in milliseconds or the invalid date.
\<close>

type_synonym js_string = "nat list"

definition units :: "string \<Rightarrow> js_string" where
  "units s = map of_char s"

datatype js_date = Date_ms int | Invalid_date

record history_query =
  q_page :: "js_string option"
  q_limit :: "js_string option"
  q_class :: "string option"
  q_dateFrom :: "js_date option"
  q_dateTo :: "js_date option"

text \<open>
  \<open>parseInt(s, 10)\<close>: leading white space and line terminators of ECMAScript, an
  optional sign, then the longest run of decimal digits; \<open>NaN\<close> when there is no
  digit, else the double nearest to the integer read.
\<close>

definition is_space :: "nat \<Rightarrow> bool" where
  "is_space u =
     (u \<in> set [0x09, 0x0A, 0x0B, 0x0C, 0x0D, 0x20, 0xA0, 0x1680, 0x2028, 0x2029, 0x202F,
               0x205F, 0x3000, 0xFEFF]
      \<or> (0x2000 \<le> u \<and> u \<le> 0x200A))"

definition is_digit :: "nat \<Rightarrow> bool" where
  "is_digit u = (0x30 \<le> u \<and> u \<le> 0x39)"

definition digits_value :: "nat list \<Rightarrow> int" where
  "digits_value ds = foldl (\<lambda>a u. 10 * a + (int u - 0x30)) 0 ds"

definition parseInt :: "js_string \<Rightarrow> js_num" where
  "parseInt s =
     (let t = dropWhile is_space s;
          neg = (case t of u # _ \<Rightarrow> u = 0x2D | [] \<Rightarrow> False);
          r = (case t of u # r \<Rightarrow> if u = 0x2D \<or> u = 0x2B then r else t | [] \<Rightarrow> t);
          ds = takeWhile is_digit r
      in if ds = [] then NaN
         else fl (of_int (if neg then - digits_value ds else digits_value ds)))"

text \<open>\<open>req.query.x || dflt\<close>.\<close>

definition or_default :: "'a list option \<Rightarrow> 'a list \<Rightarrow> 'a list" where
  "or_default v dflt = (if falsy v then dflt else (case v of Some s \<Rightarrow> s | None \<Rightarrow> dflt))"

text \<open>\<open>page\<close>, \<open>limit\<close> and \<open>skip\<close> as the handler computes them.\<close>

definition page_of :: "history_query \<Rightarrow> js_num" where
  "page_of q = js_max (Num 1) (parseInt (or_default (q_page q) (units ''1'')))"

definition limit_of :: "history_query \<Rightarrow> js_num" where
  "limit_of q = js_min (Num 100) (parseInt (or_default (q_limit q) (units ''20'')))"

definition skip_of :: "history_query \<Rightarrow> js_num" where
  "skip_of q = js_mul (js_sub (page_of q) (Num 1)) (limit_of q)"

text \<open>The Mongo filter the handler builds, on valid dates.\<close>

definition matches :: "history_query \<Rightarrow> scan_record \<Rightarrow> bool" where
  "matches q r =
     ((falsy (q_class q) \<or> predictedClass r = q_class q) \<and>
      (case q_dateFrom q of Some (Date_ms d) \<Rightarrow> d \<le> createdAt r | _ \<Rightarrow> True) \<and>
      (case q_dateTo q of Some (Date_ms d) \<Rightarrow> createdAt r \<le> d | _ \<Rightarrow> True))"

text \<open>An invalid date in the filter cannot be cast to the schema's \<open>Date\<close>.\<close>

definition castable :: "history_query \<Rightarrow> bool" where
  "castable q = (q_dateFrom q \<noteq> Some Invalid_date \<and> q_dateTo q \<noteq> Some Invalid_date)"

text \<open>
  The store's part, which is MongoDB's and not the repository's. The handler sorts by
  \<open>{createdAt: -1}\<close> alone, and the store returns documents with equal timestamps in
  an order of its own: that order is the input \<open>tie\<close>, a rank the store gives each
  document for this query. \<open>limit(n)\<close> follows MongoDB's documented reading: \<open>0\<close>
  means no limit, a negative \<open>n\<close> means \<open>-n\<close>.
\<close>

definition newest_first :: "(scan_record \<Rightarrow> nat) \<Rightarrow> scan_record list \<Rightarrow> scan_record list" where
  "newest_first tie rs = sort_key (\<lambda>r. - createdAt r) (sort_key tie rs)"

definition mongo_limit :: "int \<Rightarrow> 'a list \<Rightarrow> 'a list" where
  "mongo_limit n xs = (if n = 0 then xs else take (nat \<bar>n\<bar>) xs)"

text \<open>\<open>skip\<close> and \<open>limit\<close> are sent as 64-bit integers; the store refuses a negative skip.\<close>

definition store_takes :: "rat \<Rightarrow> rat \<Rightarrow> bool" where
  "store_takes k l = (0 \<le> k \<and> k < 2 ^ 63 \<and> \<bar>l\<bar> < 2 ^ 63)"

text \<open>
  \<open>Math.ceil(total / limit)\<close> as JSON writes it: \<open>None\<close> is \<open>null\<close>, the non-finite
  result of a division by zero.
\<close>

definition pages_of :: "nat \<Rightarrow> rat \<Rightarrow> rat option" where
  "pages_of n l =
     (if l = 0 then None
      else (case fl (of_nat n / l) of Num v \<Rightarrow> Some (of_int \<lceil>v\<rceil>) | _ \<Rightarrow> None))"

record history_page =
  hp_records :: "scan_record list"
  hp_total :: nat
  hp_page :: rat
  hp_limit :: rat
  hp_pages :: "rat option"

text \<open>
  The handler. Both queries run on the same filter. The promise rejects, and the handler
  answers 500 with the error's message (the text here stands for it), when the database
  is unreachable, when a date of the filter is invalid, and when the store does not take
  \<open>skip\<close> or \<open>limit\<close>: a \<open>NaN\<close>, an infinity, a negative skip.
\<close>

definition history :: "(scan_record \<Rightarrow> nat) \<Rightarrow> bool \<Rightarrow> history_query \<Rightarrow> server
    \<Rightarrow> history_page reply" where
  "history tie db_ok q s =
     (case (page_of q, limit_of q, skip_of q) of
        (Num p, Num l, Num k) \<Rightarrow>
          if db_ok \<and> castable q \<and> store_takes k l
          then
            let found = filter (matches q) (store s)
            in Reply_ok
                 \<lparr>hp_records = mongo_limit \<lfloor>l\<rfloor> (drop (nat \<lfloor>k\<rfloor>) (newest_first tie found)),
                  hp_total = length found,
                  hp_page = p, hp_limit = l,
                  hp_pages = pages_of (length found) l\<rparr>
          else Reply_error 500 ''query failed''
      | _ \<Rightarrow> Reply_error 500 ''query failed'')"

subsection \<open>GET /api/analytics\<close>

text \<open>
  The aggregation pipeline: \<open>$group\<close> by \<open>result.predictedClass\<close> with \<open>$sum: 1\<close> and
  \<open>$avg\<close> of \<open>result.confidence\<close>, then \<open>$sort\<close> by \<open>count\<close> descending. \<open>$avg\<close>
  skips documents without the number and is \<open>null\<close> when none has it.
\<close>

record class_group =
  g_id :: "string option"
  g_count :: nat
  g_avgConfidence :: "rat option"

definition mongo_avg :: "rat option list \<Rightarrow> rat option" where
  "mongo_avg vs =
     (let ns = [v. Some v \<leftarrow> vs]
      in if ns = [] then None else Some (sum_list ns / of_nat (length ns)))"

definition group_of :: "scan_record list \<Rightarrow> string option \<Rightarrow> class_group" where
  "group_of rs c =
     (let members = filter (\<lambda>r. predictedClass r = c) rs
      in \<lparr>g_id = c, g_count = length members,
          g_avgConfidence = mongo_avg (map rec_confidence members)\<rparr>)"

definition aggregateByClass :: "scan_record list \<Rightarrow> class_group list" where
  "aggregateByClass rs =
     sort_key (\<lambda>g. - int (g_count g)) (map (group_of rs) (remdups (map predictedClass rs)))"

record class_entry =
  ce_class :: "string option"
  ce_count :: nat
  ce_avgConfidence :: "rat option"

text \<open>
  \<open>Math.round(d.avgConfidence * 10000) / 100\<close> on the double of the average, as JSON
  writes it; \<open>null * 10000\<close> is \<open>0\<close>.
\<close>

definition percentage :: "rat option \<Rightarrow> rat option" where
  "percentage a =
     (case a of
        None \<Rightarrow> Some 0
      | Some v \<Rightarrow>
          (case math_round (js_mul (fl v) (Num 10000)) of
             Num r \<Rightarrow> json_number (fl (r / 100))
           | _ \<Rightarrow> None))"

record analytics_data =
  totalScans :: nat
  scansThisWeek :: nat
  classDistribution :: "class_entry list"

text \<open>
  The handler; \<open>now\<close> is \<open>Date.now()\<close>. When the database is unreachable it answers
  500 with the error's message, for which the text here stands.
\<close>

definition analytics :: "bool \<Rightarrow> int \<Rightarrow> server \<Rightarrow> analytics_data reply" where
  "analytics db_ok now s =
     (if \<not> db_ok then Reply_error 500 ''query failed''
      else Reply_ok
        \<lparr>totalScans = length (store s),
         scansThisWeek =
           length (filter (\<lambda>r. now - 7 * 24 * 3600 * 1000 \<le> createdAt r) (store s)),
         classDistribution =
           map (\<lambda>d. \<lparr>ce_class = g_id d, ce_count = g_count d,
                       ce_avgConfidence = percentage (g_avgConfidence d)\<rparr>)
               (aggregateByClass (store s))\<rparr>)"

subsection \<open>DELETE /api/history/:scanId\<close>

text \<open>
  \<open>deleteOne({scanId: id})\<close> removes the first document with that identifier, if any.
  The handler answers \<open>{success: true}\<close> whenever the call returns, and 500 with the
  error's message (the text here stands for it) when it throws.
\<close>

fun deleteOne :: "string \<Rightarrow> scan_record list \<Rightarrow> scan_record list" where
  "deleteOne i [] = []"
| "deleteOne i (r # rs) = (if scanId r = i then rs else r # deleteOne i rs)"

datatype deleted = Success_true

definition delete_history :: "bool \<Rightarrow> string \<Rightarrow> server \<Rightarrow> deleted reply \<times> server" where
  "delete_history db_ok i s =
     (if db_ok then (Reply_ok Success_true, s\<lparr>store := deleteOne i (store s)\<rparr>)
      else (Reply_error 500 ''delete failed'', s))"

section \<open>The client: DiagnosisContext and ProcessingAnimation\<close>

text \<open>
  The session state lives in \<open>DiagnosisProvider\<close> (three \<open>useState\<close> cells and
  \<open>resetDiagnosis\<close>). \<open>ProcessingAnimation\<close> starts the cosmetic timers and the one
  call to \<open>submitDiagnosis\<close> in an effect. The model follows one mount of the component
  and the call it starts: the component's state, the provider's state and the router's
  location are one record, and everything that can happen next (a timer firing, the
  promise settling, a reset, new intake data, the unmount) is an event. Events may come
  in any order; the promise's continuation and the navigation timer it sets outlive the
  unmount, as closures do.
\<close>

subsection \<open>Data\<close>

datatype upload_method = Method_file | Method_camera

record scan_data =
  sd_file :: "upload_file option"
  capturedImage :: "string option"
  uploadMethod :: "upload_method option"

text \<open>\<open>DiagnosisApiResult\<close>: the backend's answer, with the optional \<open>heatmap_b64\<close>.\<close>

record api_result = diagnosis_response +
  heatmap_b64 :: "string option"

record diagnosis_result =
  dr_scanId :: string
  disease :: "string option"
  dr_confidence :: "rat option"
  dr_severity :: string
  dr_affectedRegions :: "string list option"
  dr_recommendations :: "string list option"
  dr_probabilities :: "(string \<times> rat) list option"
  heatmapUrl :: string
  dr_demoMode :: bool

definition to_result :: "api_result \<Rightarrow> diagnosis_result" where
  "to_result a =
     \<lparr>dr_scanId = res_scanId a,
      disease = res_predicted_class a,
      dr_confidence = res_confidence a,
      dr_severity = res_severity a,
      dr_affectedRegions = res_affected_regions a,
      dr_recommendations = res_recommendations a,
      dr_probabilities = res_probabilities a,
      heatmapUrl = (case heatmap_b64 a of None \<Rightarrow> [] | Some h \<Rightarrow> h),
      dr_demoMode = res_demo_mode a\<rparr>"

datatype route = Root | Patient_details | Upload_scan | Processing | Results

text \<open>The promise of \<open>submitDiagnosis\<close>; \<open>Idle\<close> is \<open>calledRef.current = false\<close>.\<close>

datatype call_status = Idle | In_flight | Fulfilled | Rejected

record client =
  patientData :: "patient option"
  scanData :: "scan_data option"
  diagnosisResult :: "diagnosis_result option"
  location :: route
  progress :: rat
  currentStep :: nat
  error_msg :: "string option"
  elapsed :: nat
  progressInterval :: bool
  stepTimers :: "nat list"
  call :: call_status
  nav_timers :: nat

subsection \<open>The processing steps\<close>

definition processingSteps :: "nat list" where
  "processingSteps = [1200, 2200, 1200, 800]"

definition totalDuration :: nat where
  "totalDuration = sum_list processingSteps"

text \<open>\<open>Math.min((elapsed / totalDuration) * 90, 90)\<close>.\<close>

definition timer_progress :: "nat \<Rightarrow> rat" where
  "timer_progress e = min ((of_nat e / of_nat totalDuration) * 90) 90"

subsection \<open>Events\<close>

datatype event =
    Effect
  | Guard
  | Results_guard
  | Tick
  | Step_timer nat
  | Resolve api_result
  | Reject string
  | Nav_timer
  | Set_patient patient
  | Set_scan scan_data
  | ResetDiagnosis
  | New_diagnosis
  | Unmount

text \<open>\<open>resetDiagnosis\<close> of the provider.\<close>

definition resetDiagnosis :: "client \<Rightarrow> client" where
  "resetDiagnosis s = s\<lparr>patientData := None, scanData := None, diagnosisResult := None\<rparr>"

text \<open>
  The second effect of \<open>ProcessingAnimation\<close>. It runs once (\<open>calledRef\<close>). The body of
  the \<open>async\<close> function runs up to its \<open>await\<close> at once, so a missing file is caught
  there and then.
\<close>

definition start_effect :: "client \<Rightarrow> client" where
  "start_effect s =
     (case scanData s of
        None \<Rightarrow> s
      | Some sd \<Rightarrow>
          if call s \<noteq> Idle then s
          else
            (case sd_file sd of
               None \<Rightarrow>
                 s\<lparr>elapsed := 0, progressInterval := False, stepTimers := [],
                   error_msg := Some ''No scan file available.'', call := Rejected\<rparr>
             | Some f \<Rightarrow>
                 s\<lparr>elapsed := 0, progressInterval := True,
                   stepTimers := [0 ..< length processingSteps], call := In_flight\<rparr>))"

text \<open>The continuation after \<open>await submitDiagnosis(...)\<close>: the \<open>try\<close> branch.\<close>

definition on_resolve :: "api_result \<Rightarrow> client \<Rightarrow> client" where
  "on_resolve a s =
     (if call s \<noteq> In_flight then s
      else s\<lparr>progressInterval := False, progress := 100,
             diagnosisResult := Some (to_result a),
             nav_timers := nav_timers s + 1,
             stepTimers := [], call := Fulfilled\<rparr>)"

text \<open>The \<open>catch\<close> branch.\<close>

definition on_reject :: "string \<Rightarrow> client \<Rightarrow> client" where
  "on_reject msg s =
     (if call s \<noteq> In_flight then s
      else s\<lparr>progressInterval := False, error_msg := Some msg,
             stepTimers := [], call := Rejected\<rparr>)"

text \<open>
  One event. \<open>Guard\<close> is the first effect of \<open>ProcessingAnimation\<close>,
  \<open>Results_guard\<close> the effect of \<open>ResultsDisplay\<close>, \<open>Nav_timer\<close> the
  \<open>setTimeout(() => navigate('/results'), 500)\<close> of the completion,
  \<open>New_diagnosis\<close> the button of the results page, \<open>Unmount\<close> the cleanup of the
  second effect. \<open>Set_patient\<close> and \<open>Set_scan\<close> are the provider's setters, called
  by the intake form and the uploader.
\<close>

fun fire :: "event \<Rightarrow> client \<Rightarrow> client" where
  "fire Effect s = start_effect s"
| "fire Guard s =
     (if location s = Processing \<and> scanData s = None then s\<lparr>location := Upload_scan\<rparr> else s)"
| "fire Results_guard s =
     (if location s = Results \<and> (diagnosisResult s = None \<or> patientData s = None)
      then s\<lparr>location := Root\<rparr> else s)"
| "fire Tick s =
     (if progressInterval s
      then s\<lparr>elapsed := elapsed s + 50, progress := timer_progress (elapsed s + 50)\<rparr>
      else s)"
| "fire (Step_timer i) s =
     (if i \<in> set (stepTimers s)
      then s\<lparr>currentStep := i, stepTimers := removeAll i (stepTimers s)\<rparr>
      else s)"
| "fire (Resolve a) s = on_resolve a s"
| "fire (Reject msg) s = on_reject msg s"
| "fire Nav_timer s =
     (if nav_timers s = 0 then s
      else s\<lparr>location := Results, nav_timers := nav_timers s - 1\<rparr>)"
| "fire (Set_patient p) s = s\<lparr>patientData := Some p\<rparr>"
| "fire (Set_scan sd) s = s\<lparr>scanData := Some sd\<rparr>"
| "fire ResetDiagnosis s = resetDiagnosis s"
| "fire New_diagnosis s = (resetDiagnosis s)\<lparr>location := Patient_details\<rparr>"
| "fire Unmount s = s\<lparr>progressInterval := False, stepTimers := []\<rparr>"

fun run :: "event list \<Rightarrow> client \<Rightarrow> client" where
  "run [] s = s"
| "run (e # es) s = run es (fire e s)"

text \<open>The component as it mounts on \<open>/processing\<close> with the session's data.\<close>

definition mounted :: "patient option \<Rightarrow> scan_data option \<Rightarrow> client" where
  "mounted pd sd =
     \<lparr>patientData = pd, scanData = sd, diagnosisResult = None, location = Processing,
      progress = 0, currentStep = 0, error_msg = None, elapsed = 0,
      progressInterval = False, stepTimers = [], call = Idle, nav_timers = 0\<rparr>"

text \<open>The events that settle the promise.\<close>

fun settles :: "event \<Rightarrow> bool" where
  "settles (Resolve a) = True"
| "settles (Reject msg) = True"
| "settles ev = False"

text \<open>
  The state of the progress bar that is to hold at every moment: at most 90, or complete
  with the call fulfilled.
\<close>

definition settled_or_below :: "client \<Rightarrow> bool" where
  "settled_or_below s = (progress s \<le> 90 \<or> (progress s = 100 \<and> call s = Fulfilled))"

section \<open>The specification's invariant and reference data\<close>

text \<open>
  The specification's invariant of a diagnosis result, in its words: the predicted class
  is a key of the probability map and carries the maximum value, and among several keys
  with the maximum it is the first in the canonical order (the order of the map's
  entries).
\<close>

definition spec_first_max_key :: "(string \<times> rat) list \<Rightarrow> string option" where
  "spec_first_max_key kvs = map_option fst (find (\<lambda>kv. \<forall>kv' \<in> set kvs. snd kv' \<le> snd kv) kvs)"

definition spec_predicted_is_max :: "string option \<Rightarrow> (string \<times> rat) list option \<Rightarrow> bool" where
  "spec_predicted_is_max c ps =
     (case ps of None \<Rightarrow> False | Some kvs \<Rightarrow> c \<noteq> None \<and> c = spec_first_max_key kvs)"

text \<open>Concrete requests, upstream answers and stores on which the theorems are exercised.\<close>

definition sample_file :: upload_file where
  "sample_file = \<lparr>originalname = ''xray.png'', mimetype = ''image/png'', size_bytes = 2048\<rparr>"

definition sample_req :: diagnose_req where
  "sample_req = \<lparr>req_file = Some sample_file, req_patientData = PD_absent\<rparr>"

definition no_image_req :: diagnose_req where
  "no_image_req = \<lparr>req_file = None, req_patientData = PD_absent\<rparr>"

definition sample_ai :: "string option \<Rightarrow> ai_result" where
  "sample_ai c = \<lparr>predicted_class = c, confidence = Some (1 / 10), severity = None,
     probabilities = Some [(''Normal'', 1 / 10), (''COVID-19'', 9 / 10)],
     affected_regions = Some [], recommendations = Some [''Consult a physician''],
     demo_mode = Some True\<rparr>"

definition flagged_ai :: ai_result where
  "flagged_ai = sample_ai (Some ''Normal'')"


definition blank_ai :: ai_result where
  "blank_ai = sample_ai (Some [])"

definition sample_env :: "upstream_outcome \<Rightarrow> bool \<Rightarrow> diag_env" where
  "sample_env u ok = \<lparr>upstream = u, uuid = ''id-1'', db_create_ok = ok,
     now_db = 1000, now_res = 1001\<rparr>"

definition good_env :: "ai_result \<Rightarrow> diag_env" where
  "good_env ai = sample_env (Upstream_data (Some ai)) True"

definition bad_db_env :: diag_env where
  "bad_db_env = sample_env (Upstream_data (Some flagged_ai)) False"

definition timeout_env :: diag_env where
  "timeout_env = sample_env (Upstream_throws ''timeout of 60000ms exceeded'') True"

definition empty_server :: server where
  "empty_server = \<lparr>store = [], upstream_calls = 0, logs = []\<rparr>"

definition one_scan_server :: server where
  "one_scan_server =
     \<lparr>store = [new_record (good_env flagged_ai) empty_patient sample_file flagged_ai],
      upstream_calls = 1, logs = [Log_db_saved ''id-1'']\<rparr>"

definition sample_scan :: "string \<Rightarrow> string option \<Rightarrow> rat option \<Rightarrow> int \<Rightarrow> scan_record" where
  "sample_scan i c v t =
     \<lparr>scanId = i, rec_patient = empty_patient, predictedClass = c, rec_confidence = v,
      rec_severity = None, rec_probabilities = None, affectedRegions = [],
      rec_recommendations = [], demoMode = None, originalName = ''xray.png'',
      rec_mimetype = ''image/png'', sizeByes = 2048, createdAt = t\<rparr>"

definition timeline :: "nat \<Rightarrow> scan_record list" where
  "timeline n = map (\<lambda>k. sample_scan (replicate k CHR ''a'') (Some ''Normal'') (Some (1 / 2)) (int k)) [1 ..< Suc n]"

definition holding :: "scan_record list \<Rightarrow> server" where
  "holding rs = \<lparr>store = rs, upstream_calls = 0, logs = []\<rparr>"

definition page_query :: "js_string option \<Rightarrow> js_string option \<Rightarrow> history_query" where
  "page_query p l = \<lparr>q_page = p, q_limit = l, q_class = None, q_dateFrom = None, q_dateTo = None\<rparr>"

definition mixed_store :: "scan_record list" where
  "mixed_store =
     [sample_scan ''a'' (Some ''COVID-19'') (Some (9 / 10)) 1,
      sample_scan ''b'' (Some ''Normal'') (Some (1 / 2)) 2,
      sample_scan ''c'' (Some ''Normal'') (Some 1) 3]"

definition sample_scan_data :: scan_data where
  "sample_scan_data = \<lparr>sd_file = Some sample_file, capturedImage = None, uploadMethod = Some Method_file\<rparr>"

definition sample_api :: api_result where
  "sample_api =
     \<lparr>res_scanId = ''id-1'', res_predicted_class = Some ''Pneumonia'', res_confidence = Some (4 / 5),
      res_severity = ''Medium'', res_probabilities = Some [(''Pneumonia'', 4 / 5), (''Normal'', 1 / 5)],
      res_affected_regions = Some [], res_recommendations = Some [''Consult a physician''],
      res_demo_mode = False, res_created_at = 1001, heatmap_b64 = None\<rparr>"

definition session :: client where
  "session = mounted (Some empty_patient) (Some sample_scan_data)"

definition second_patient :: patient where
  "second_patient = empty_patient\<lparr>fullName := Some ''Second Patient''\<rparr>"

definition detour :: "event list" where
  "detour = [Unmount, New_diagnosis, Set_patient second_patient]"

section \<open>Properties of POST /api/diagnose\<close>

subsection \<open>Case analysis of the route\<close>

lemmas sample_defs = sample_file_def sample_req_def sample_ai_def sample_env_def empty_server_def
  flagged_ai_def blank_ai_def good_env_def

lemmas diagnose_defs = diagnose_def diagnose_handler_def upload_single_def allowed_types_def
  make_response_def new_record_def persist_def response_severity_def inferSeverity_def falsy_def

lemma diagnose_ok_cases:
  assumes "diagnose max_mb env req s = (Reply_ok r, s')"
  obtains f ai where "upload_single max_mb (req_file req) = Inr (Some f)"
    and "req_patientData req \<noteq> PD_malformed"
    and "upstream env = Upstream_data (Some ai)"
    and "r = make_response env ai"
    and "s' = persist env (new_record env (case req_patientData req of PD_parsed q \<Rightarrow> q | _ \<Rightarrow> empty_patient) f ai)
                (s\<lparr>upstream_calls := upstream_calls s + 1\<rparr>)"
  using assms
  by (auto simp: diagnose_def diagnose_handler_def Let_def
      split: sum.splits multer_error.splits option.splits patient_field.splits upstream_outcome.splits)

lemma diagnose_valid:
  assumes "upload_single max_mb (req_file req) = Inr (Some f)"
    and "req_patientData req \<noteq> PD_malformed"
    and "upstream env = Upstream_data (Some ai)"
  shows "diagnose max_mb env req s =
     (Reply_ok (make_response env ai),
      persist env (new_record env (case req_patientData req of PD_parsed q \<Rightarrow> q | _ \<Rightarrow> empty_patient) f ai)
        (s\<lparr>upstream_calls := upstream_calls s + 1\<rparr>))"
  using assms
  by (auto simp: diagnose_def diagnose_handler_def Let_def split: patient_field.splits)

lemma sample_run:
  "diagnose 10 (good_env ai) sample_req empty_server =
     (Reply_ok (make_response (good_env ai) ai),
      \<lparr>store = [new_record (good_env ai) empty_patient sample_file ai], upstream_calls = 1,
       logs = [Log_db_saved ''id-1'']\<rparr>)"
  by (simp add: diagnose_def diagnose_handler_def upload_single_def allowed_types_def persist_def
      sample_defs good_env_def new_record_def)

lemma good_env_upstream: "upstream (good_env ai) = Upstream_data (Some ai)"
  by (simp add: good_env_def sample_env_def)

subsection \<open>The predicted class and the probabilities\<close>

text \<open>
  Claim C1, as amended. The specification asks that the predicted class of every
  successful answer is a key of the probability map with the maximum value, the first
  such key on ties. The handler checks nothing: it copies \<open>predicted_class\<close> and
  \<open>probabilities\<close> from the upstream answer. So for every successful call the two
  fields of the answer are exactly the upstream's, and the answer has the
  specification's property exactly when the upstream answer has it.
\<close>

theorem diagnose_passes_prediction_through:
  assumes "diagnose max_mb env req s = (Reply_ok r, s')"
  shows "\<exists>ai. upstream env = Upstream_data (Some ai)
           \<and> res_predicted_class r = predicted_class ai
           \<and> res_probabilities r = probabilities ai
           \<and> spec_predicted_is_max (res_predicted_class r) (res_probabilities r)
               = spec_predicted_is_max (predicted_class ai) (probabilities ai)"
proof -
  from assms obtain f ai where u: "upstream env = Upstream_data (Some ai)"
    and r: "r = make_response env ai"
    by (rule diagnose_ok_cases)
  from r have "res_predicted_class r = predicted_class ai" "res_probabilities r = probabilities ai"
    by (simp_all add: make_response_def)
  with u show ?thesis by simp
qed

theorem diagnose_passes_prediction_through_witness:
  "\<exists>ai. upstream (good_env flagged_ai) = Upstream_data (Some ai)
      \<and> res_predicted_class (make_response (good_env flagged_ai) flagged_ai) = predicted_class ai
      \<and> res_probabilities (make_response (good_env flagged_ai) flagged_ai) = probabilities ai
      \<and> spec_predicted_is_max (res_predicted_class (make_response (good_env flagged_ai) flagged_ai))
          (res_probabilities (make_response (good_env flagged_ai) flagged_ai))
          = spec_predicted_is_max (predicted_class ai) (probabilities ai)"
  by (rule diagnose_passes_prediction_through [OF sample_run])

text \<open>
  The claim as stated fails: the upstream answers with class \<open>Normal\<close> while
  \<open>COVID-19\<close> has the larger probability, and the handler returns that answer.
\<close>

theorem predicted_class_not_checked_counterexample:
  "fst (diagnose 10 (good_env flagged_ai) sample_req empty_server)
     = Reply_ok (make_response (good_env flagged_ai) flagged_ai)
   \<and> res_predicted_class (make_response (good_env flagged_ai) flagged_ai) = Some ''Normal''
   \<and> res_probabilities (make_response (good_env flagged_ai) flagged_ai)
        = Some [(''Normal'', 1 / 10), (''COVID-19'', 9 / 10)]
   \<and> spec_first_max_key [(''Normal'', 1 / 10), (''COVID-19'', 9 / 10)] = Some ''COVID-19''
   \<and> \<not> spec_predicted_is_max
        (res_predicted_class (make_response (good_env flagged_ai) flagged_ai))
        (res_probabilities (make_response (good_env flagged_ai) flagged_ai))"
  by (simp add: diagnose_defs sample_defs spec_predicted_is_max_def spec_first_max_key_def)

subsection \<open>Severity\<close>




subsection \<open>Persistence failures\<close>

text \<open>
  Claim C3. When the image passes the upload middleware, the patient data is not
  malformed, the upstream call returns an answer and \<open>ScanRecord.create\<close> fails, the
  call still answers with status 200: the body is built from the upstream answer and
  carries the generated \<open>scanId\<close> and the timestamp. The failure leaves one warning
  in the log and nothing in the store.
\<close>

theorem diagnose_succeeds_when_persist_fails:
  assumes "upload_single max_mb (req_file req) = Inr (Some f)"
    and "req_patientData req \<noteq> PD_malformed"
    and "upstream env = Upstream_data (Some ai)"
    and "\<not> db_create_ok env"
  shows "diagnose max_mb env req s =
           (Reply_ok (make_response env ai),
            s\<lparr>upstream_calls := upstream_calls s + 1, logs := logs s @ [Log_db_failed]\<rparr>)
         \<and> res_scanId (make_response env ai) = uuid env
         \<and> res_created_at (make_response env ai) = now_res env"
  using assms(4) by (simp add: diagnose_valid [OF assms(1-3)] persist_def make_response_def)

theorem diagnose_succeeds_when_persist_fails_witness:
  "diagnose 10 bad_db_env sample_req empty_server =
     (Reply_ok (make_response bad_db_env flagged_ai),
      \<lparr>store = [], upstream_calls = 1, logs = [Log_db_failed]\<rparr>)
   \<and> res_scanId (make_response bad_db_env flagged_ai) = ''id-1''
   \<and> res_created_at (make_response bad_db_env flagged_ai) = 1001"
  using diagnose_succeeds_when_persist_fails [of 10 sample_req sample_file bad_db_env flagged_ai empty_server]
  by (simp add: upload_single_def allowed_types_def sample_defs bad_db_env_def)

text \<open>
  Claim C4. Without an image the route answers 400 and leaves the whole server state as
  it was: no upstream call is counted and the store is unchanged. When the upstream call
  throws, the route answers with an error (502 for a request that reached the call) and
  the store is unchanged. Whenever the store does change, the answer is a success and
  exactly one record was appended.
\<close>

theorem diagnose_persists_only_on_success:
  "(req_file req = None \<longrightarrow>
      diagnose max_mb env req s = (Reply_error 400 ''Image file is required (field name: image)'', s))
   \<and> ((\<exists>m. upstream env = Upstream_throws m) \<longrightarrow>
        (\<exists>code msg. fst (diagnose max_mb env req s) = Reply_error code msg)
        \<and> store (snd (diagnose max_mb env req s)) = store s)
   \<and> ((\<exists>f. upload_single max_mb (req_file req) = Inr (Some f)) \<and> req_patientData req \<noteq> PD_malformed
        \<and> (\<exists>m. upstream env = Upstream_throws m) \<longrightarrow>
        fst (diagnose max_mb env req s) = Reply_error 502
          ''AI inference service is unavailable. Please ensure the Python API is running.''
        \<and> upstream_calls (snd (diagnose max_mb env req s)) = upstream_calls s + 1)
   \<and> (store (snd (diagnose max_mb env req s)) \<noteq> store s \<longrightarrow>
        (\<exists>r. fst (diagnose max_mb env req s) = Reply_ok r)
        \<and> (\<exists>d. store (snd (diagnose max_mb env req s)) = store s @ [d]))"
  by (auto simp: diagnose_def diagnose_handler_def upload_single_def persist_def Let_def
      split: sum.splits multer_error.splits option.splits patient_field.splits
        upstream_outcome.splits if_splits)

theorem diagnose_persists_only_on_success_witness:
  "diagnose 10 (good_env flagged_ai) no_image_req one_scan_server
     = (Reply_error 400 ''Image file is required (field name: image)'', one_scan_server)
   \<and> fst (diagnose 10 timeout_env sample_req one_scan_server) = Reply_error 502
        ''AI inference service is unavailable. Please ensure the Python API is running.''
   \<and> store (snd (diagnose 10 timeout_env sample_req one_scan_server)) = store one_scan_server
   \<and> upstream_calls (snd (diagnose 10 timeout_env sample_req one_scan_server)) = 2
   \<and> (\<exists>r. fst (diagnose 10 (good_env flagged_ai) sample_req empty_server) = Reply_ok r)"
proof -
  have a: "req_file no_image_req = None"
    by (simp add: no_image_req_def)
  have b: "\<exists>m. upstream timeout_env = Upstream_throws m"
    by (simp add: timeout_env_def sample_env_def)
  have c: "\<exists>f. upload_single 10 (req_file sample_req) = Inr (Some f)"
    by (simp add: upload_single_def sample_req_def sample_file_def allowed_types_def)
  have d: "req_patientData sample_req \<noteq> PD_malformed"
    by (simp add: sample_req_def)
  have e: "store (snd (diagnose 10 (good_env flagged_ai) sample_req empty_server)) \<noteq> store empty_server"
    unfolding sample_run by (simp add: empty_server_def)
  have f: "upstream_calls one_scan_server = 1"
    by (simp add: one_scan_server_def)
  from diagnose_persists_only_on_success [of no_image_req 10 "good_env flagged_ai" one_scan_server] a
  have "diagnose 10 (good_env flagged_ai) no_image_req one_scan_server
     = (Reply_error 400 ''Image file is required (field name: image)'', one_scan_server)"
    by blast
  moreover
  from diagnose_persists_only_on_success [of sample_req 10 timeout_env one_scan_server] b c d f
  have "fst (diagnose 10 timeout_env sample_req one_scan_server) = Reply_error 502
        ''AI inference service is unavailable. Please ensure the Python API is running.''
     \<and> store (snd (diagnose 10 timeout_env sample_req one_scan_server)) = store one_scan_server
     \<and> upstream_calls (snd (diagnose 10 timeout_env sample_req one_scan_server)) = 2"
    by simp
  moreover
  from diagnose_persists_only_on_success [of sample_req 10 "good_env flagged_ai" empty_server] e
  have "\<exists>r. fst (diagnose 10 (good_env flagged_ai) sample_req empty_server) = Reply_ok r"
    by blast
  ultimately show ?thesis by blast
qed

subsection \<open>The severity that is stored\<close>

text \<open>
  Claim C10. For a successful call whose upstream answer has no \<open>severity\<close> field and
  whose record is written, the record appended to the store has the identifier of the
  answer and no severity, while the answer carries the severity \<open>_inferSeverity\<close>
  derives from the class: the two differ.
\<close>

theorem persisted_severity_is_upstream_verbatim:
  assumes "diagnose max_mb env req s = (Reply_ok r, s')"
    and "upstream env = Upstream_data (Some ai)"
    and "severity ai = None"
    and "db_create_ok env"
  shows "\<exists>d. store s' = store s @ [d]
           \<and> scanId d = res_scanId r
           \<and> rec_severity d = None
           \<and> res_severity r = inferSeverity (predicted_class ai)
           \<and> rec_severity d \<noteq> Some (res_severity r)"
proof -
  from assms(1,2) obtain f p where r: "r = make_response env ai"
    and s': "s' = persist env (new_record env p f ai) (s\<lparr>upstream_calls := upstream_calls s + 1\<rparr>)"
    by (auto elim!: diagnose_ok_cases)
  let ?d = "new_record env p f ai"
  from assms(4) have "store s' = store s @ [?d]"
    by (simp add: s' persist_def)
  moreover have "scanId ?d = res_scanId r"
    by (simp add: r new_record_def make_response_def)
  moreover from assms(3) have "rec_severity ?d = None"
    by (simp add: new_record_def)
  moreover from assms(3) have "res_severity r = inferSeverity (predicted_class ai)"
    by (simp add: r make_response_def response_severity_def)
  ultimately show ?thesis by auto
qed

theorem persisted_severity_is_upstream_verbatim_witness:
  "\<exists>d. store \<lparr>store = [new_record (good_env flagged_ai) empty_patient sample_file flagged_ai],
               upstream_calls = 1, logs = [Log_db_saved ''id-1'']\<rparr> = store empty_server @ [d]
      \<and> scanId d = res_scanId (make_response (good_env flagged_ai) flagged_ai)
      \<and> rec_severity d = None
      \<and> res_severity (make_response (good_env flagged_ai) flagged_ai) = inferSeverity (predicted_class flagged_ai)
      \<and> rec_severity d \<noteq> Some (res_severity (make_response (good_env flagged_ai) flagged_ai))"
proof (rule persisted_severity_is_upstream_verbatim [OF sample_run good_env_upstream])
  show "severity flagged_ai = None"
    by (simp add: flagged_ai_def sample_ai_def)
  show "db_create_ok (good_env flagged_ai)"
    by (simp add: good_env_def sample_env_def)
qed

section \<open>Properties of the store's queries\<close>

subsection \<open>Sorting newest first\<close>

lemma newest_first_set: "set (newest_first tie rs) = set rs"
  by (simp add: newest_first_def)

lemma newest_first_length: "length (newest_first tie rs) = length rs"
  by (simp add: newest_first_def)

lemma newest_first_sorted:
  "sorted_wrt (\<lambda>a b. createdAt b \<le> createdAt a) (newest_first tie rs)"
proof -
  have "sorted (map (\<lambda>r. - createdAt r) (newest_first tie rs))"
    unfolding newest_first_def by (rule sorted_sort_key)
  then show ?thesis by (simp add: sorted_map)
qed

text \<open>With timestamps that grow strictly there are no ties: the order is the reverse.\<close>

lemma newest_first_increasing:
  assumes "sorted_wrt (\<lambda>a b. createdAt a < createdAt b) rs"
  shows "newest_first tie rs = rev rs"
proof (rule map_sorted_distinct_set_unique [where f = "\<lambda>r. - createdAt r"])
  from assms have strict: "sorted_wrt (<) (map createdAt rs)"
    by (simp add: sorted_wrt_map)
  then have d: "distinct (map createdAt rs)"
    by (simp add: strict_sorted_iff)
  then have drs: "distinct rs" and inj: "inj_on createdAt (set rs)"
    by (simp_all add: distinct_map)
  from inj have injk: "inj_on (\<lambda>r. - createdAt r) (set rs)"
    by (auto simp: inj_on_def)
  show "inj_on (\<lambda>r. - createdAt r) (set (newest_first tie rs) \<union> set (rev rs))"
    using injk by (simp add: newest_first_set)
  show "sorted (map (\<lambda>r. - createdAt r) (newest_first tie rs))"
    unfolding newest_first_def by (rule sorted_sort_key)
  show "distinct (map (\<lambda>r. - createdAt r) (newest_first tie rs))"
    using drs injk by (simp add: distinct_map newest_first_def)
  from assms have "sorted_wrt (\<lambda>a b. - createdAt b \<le> - createdAt a) rs"
    by (rule sorted_wrt_mono_rel [rotated]) simp
  then show "sorted (map (\<lambda>r. - createdAt r) (rev rs))"
    by (simp add: sorted_map sorted_wrt_rev)
  show "distinct (map (\<lambda>r. - createdAt r) (rev rs))"
    using drs injk by (simp add: distinct_map)
  show "set (newest_first tie rs) = set (rev rs)"
    by (simp add: newest_first_set)
qed

lemma createdAt_sample_scan: "createdAt (sample_scan i c v t) = t"
  by (simp add: sample_scan_def)

lemma scanId_sample_scan: "scanId (sample_scan i c v t) = i"
  by (simp add: sample_scan_def)

lemma timeline_increasing: "sorted_wrt (\<lambda>a b. createdAt a < createdAt b) (timeline n)"
  by (simp add: timeline_def sorted_wrt_map createdAt_sample_scan del: upt_Suc)

lemma newest_first_timeline: "newest_first tie (timeline n) = rev (timeline n)"
  by (rule newest_first_increasing [OF timeline_increasing])

lemma holding_store: "store (holding rs) = rs"
  by (simp add: holding_def)

subsection \<open>Pagination\<close>

lemma matches_page_query: "matches (page_query p l) r"
  by (simp add: matches_def page_query_def falsy_def)

lemma castable_page_query: "castable (page_query p l)"
  by (simp add: castable_def page_query_def)

text \<open>The answer of the handler once \<open>page\<close>, \<open>limit\<close> and \<open>skip\<close> are known.\<close>

lemma history_answer:
  assumes "page_of q = Num p" and "limit_of q = Num l" and "skip_of q = Num k"
    and "castable q" and "store_takes k l"
  shows "history tie True q s = Reply_ok
     \<lparr>hp_records = mongo_limit \<lfloor>l\<rfloor> (drop (nat \<lfloor>k\<rfloor>) (newest_first tie (filter (matches q) (store s)))),
      hp_total = length (filter (matches q) (store s)),
      hp_page = p, hp_limit = l,
      hp_pages = pages_of (length (filter (matches q) (store s))) l\<rparr>"
  using assms by (simp add: history_def Let_def)

text \<open>Small integers are doubles.\<close>

lemma fl_small:
  "fl 0 = Num 0" "fl 1 = Num 1" "fl 20 = Num 20" "fl 100 = Num 100" "fl 1000 = Num 1000"
  by code_simp+

lemmas parse_defs = parseInt_def is_space_def is_digit_def digits_value_def or_default_def
  falsy_def units_def page_of_def limit_of_def skip_of_def page_query_def

text \<open>The default query: page 1 of 20.\<close>

lemma default_query:
  "page_of (page_query None None) = Num 1"
  "limit_of (page_query None None) = Num 20"
  "skip_of (page_query None None) = Num 0"
  by (simp_all add: parse_defs fl_small)

text \<open>\<open>limit=0\<close> passes the cap unchanged; \<open>limit=1000\<close> is cut to 100.\<close>

lemma limit_zero_query:
  "page_of (page_query None (Some (units ''0''))) = Num 1"
  "limit_of (page_query None (Some (units ''0''))) = Num 0"
  "skip_of (page_query None (Some (units ''0''))) = Num 0"
  by (simp_all add: parse_defs fl_small)

lemma limit_thousand_query:
  "page_of (page_query None (Some (units ''1000''))) = Num 1"
  "limit_of (page_query None (Some (units ''1000''))) = Num 100"
  "skip_of (page_query None (Some (units ''1000''))) = Num 0"
  by (simp_all add: parse_defs fl_small)

lemma store_takes_small: "store_takes 0 0" "store_takes 0 20" "store_takes 0 100"
  by (simp_all add: store_takes_def)

lemma pages_values:
  "pages_of 101 0 = None" "pages_of 101 100 = Some 2" "pages_of 1 20 = Some 1"
  "pages_of (Suc 0) 20 = Some 1" "pages_of 3 20 = Some 1"
  by code_simp+

lemma length_timeline: "length (timeline n) = n"
  by (simp add: timeline_def del: upt_Suc)

text \<open>
  Claim C7. The claim asks that for every history query the page size is bounded above
  by 100 (with 1-indexed pages, newest-first order and \<open>pages = ceil(total / limit)\<close>).
  The handler caps the limit with \<open>Math.min(100, ...)\<close> and clamps the page from below
  with \<open>Math.max(1, ...)\<close>, but it does not clamp the limit from below. So the request
  \<open>GET /api/history?limit=0\<close> on a collection of 101 records sends \<open>limit(0)\<close> to the
  store, which reads it as no limit: the answer holds all 101 records, newest first,
  with \<open>limit\<close> 0 and \<open>pages\<close> not a finite number (\<open>null\<close>), whatever order the
  store gives to ties. The cap itself works: \<open>limit=1000\<close> on the same collection
  answers the 100 newest records and 2 pages.
\<close>

theorem history_limit_zero_returns_all:
  "history tie True (page_query None (Some (units ''0''))) (holding (timeline 101)) = Reply_ok
     \<lparr>hp_records = rev (timeline 101),
      hp_total = 101, hp_page = 1, hp_limit = 0, hp_pages = None\<rparr>
   \<and> length (rev (timeline 101)) = 101
   \<and> history tie True (page_query None (Some (units ''1000''))) (holding (timeline 101)) = Reply_ok
       \<lparr>hp_records = take 100 (rev (timeline 101)),
        hp_total = 101, hp_page = 1, hp_limit = 100, hp_pages = Some 2\<rparr>
   \<and> length (take 100 (rev (timeline 101))) = 100"
proof -
  have f: "filter (matches (page_query p l)) (timeline 101) = timeline 101" for p l
    by (simp add: matches_page_query)
  have zero: "history tie True (page_query None (Some (units ''0''))) (holding (timeline 101))
      = Reply_ok \<lparr>hp_records = rev (timeline 101),
          hp_total = 101, hp_page = 1, hp_limit = 0, hp_pages = None\<rparr>"
    by (simp add: history_answer [OF limit_zero_query castable_page_query store_takes_small(1)]
        holding_store f newest_first_timeline mongo_limit_def length_timeline pages_values)
  have cap: "history tie True (page_query None (Some (units ''1000''))) (holding (timeline 101))
      = Reply_ok \<lparr>hp_records = take 100 (rev (timeline 101)),
          hp_total = 101, hp_page = 1, hp_limit = 100, hp_pages = Some 2\<rparr>"
    by (simp add: history_answer [OF limit_thousand_query castable_page_query store_takes_small(3)]
        holding_store f newest_first_timeline mongo_limit_def length_timeline pages_values)
  from zero cap show ?thesis
    by (simp add: length_timeline)
qed

subsection \<open>Deleting a record\<close>

lemma deleteOne_unknown: "i \<notin> scanId ` set rs \<Longrightarrow> deleteOne i rs = rs"
  by (induction rs) auto

lemma deleteOne_distinct:
  "distinct (map scanId rs) \<Longrightarrow> deleteOne i rs = filter (\<lambda>r. scanId r \<noteq> i) rs"
proof (induction rs)
  case Nil
  show ?case by simp
next
  case (Cons r rs)
  show ?case
  proof (cases "scanId r = i")
    case True
    with Cons.prems have "i \<notin> scanId ` set rs" by auto
    then have "filter (\<lambda>r. scanId r \<noteq> i) rs = rs"
      by (auto intro: filter_True)
    with True show ?thesis by simp
  next
    case False
    with Cons show ?thesis by simp
  qed
qed

lemma mongo_limit_subset: "set (mongo_limit n xs) \<subseteq> set xs"
  by (auto simp: mongo_limit_def dest: in_set_takeD)

lemma history_records_subset:
  assumes "history tie db q s = Reply_ok pg"
  shows "set (hp_records pg) \<subseteq> {r \<in> set (store s). matches q r}"
proof -
  from assms obtain l k where
    "hp_records pg = mongo_limit l (drop k (newest_first tie (filter (matches q) (store s))))"
    by (auto simp: history_def Let_def split: js_num.splits if_splits)
  moreover have "set (mongo_limit l (drop k (newest_first tie (filter (matches q) (store s)))))
      \<subseteq> set (newest_first tie (filter (matches q) (store s)))"
    using mongo_limit_subset set_drop_subset by (rule subset_trans)
  ultimately show ?thesis by (simp add: newest_first_set)
qed

lemma history_total:
  assumes "history tie db q s = Reply_ok pg"
  shows "hp_total pg = length (filter (matches q) (store s))"
  using assms by (auto simp: history_def Let_def split: js_num.splits if_splits)

lemma timeline_2: "timeline 2 = [sample_scan ''a'' (Some ''Normal'') (Some (1 / 2)) 1,
     sample_scan ''aa'' (Some ''Normal'') (Some (1 / 2)) 2]"
  by (simp add: timeline_def upt_rec numeral_2_eq_2)

text \<open>
  Claim C6, as amended. \<open>DELETE /api/history/:scanId\<close> answers \<open>{success: true}\<close> for
  every identifier the database accepts, known or not: there is no 404. For an unknown
  identifier the server state is unchanged. When the identifiers in the store are
  unique (they are generated by \<open>uuidv4\<close>), the store afterwards is the old one without
  the record of that identifier, so no later history page contains it and no class
  count includes it, and deleting the same identifier again changes nothing.
\<close>

theorem delete_history_removes_record:
  "delete_history True i s = (Reply_ok Success_true, s\<lparr>store := deleteOne i (store s)\<rparr>)
   \<and> (i \<notin> scanId ` set (store s) \<longrightarrow> delete_history True i s = (Reply_ok Success_true, s))
   \<and> (distinct (map scanId (store s)) \<longrightarrow>
        store (snd (delete_history True i s)) = filter (\<lambda>r. scanId r \<noteq> i) (store s)
      \<and> (\<forall>tie db q pg. history tie db q (snd (delete_history True i s)) = Reply_ok pg
            \<longrightarrow> i \<notin> scanId ` set (hp_records pg))
      \<and> (\<forall>g \<in> set (aggregateByClass (store (snd (delete_history True i s)))).
            g_count g = length (filter (\<lambda>r. predictedClass r = g_id g \<and> scanId r \<noteq> i) (store s)))
      \<and> delete_history True i (snd (delete_history True i s))
           = (Reply_ok Success_true, snd (delete_history True i s)))"
proof -
  let ?s' = "snd (delete_history True i s)"
  have a: "delete_history True i s = (Reply_ok Success_true, s\<lparr>store := deleteOne i (store s)\<rparr>)"
    by (simp add: delete_history_def)
  have b: "delete_history True i s = (Reply_ok Success_true, s)" if "i \<notin> scanId ` set (store s)"
    using deleteOne_unknown [OF that] by (simp add: delete_history_def)
  have c: "store ?s' = filter (\<lambda>r. scanId r \<noteq> i) (store s)
      \<and> (\<forall>tie db q pg. history tie db q ?s' = Reply_ok pg
            \<longrightarrow> i \<notin> scanId ` set (hp_records pg))
      \<and> (\<forall>g \<in> set (aggregateByClass (store ?s')).
            g_count g = length (filter (\<lambda>r. predictedClass r = g_id g \<and> scanId r \<noteq> i) (store s)))
      \<and> delete_history True i ?s' = (Reply_ok Success_true, ?s')"
    if d: "distinct (map scanId (store s))"
  proof -
    have st: "store ?s' = filter (\<lambda>r. scanId r \<noteq> i) (store s)"
      using deleteOne_distinct [OF d] by (simp add: delete_history_def)
    have gone: "i \<notin> scanId ` set (store ?s')"
      unfolding st by auto
    have h: "i \<notin> scanId ` set (hp_records pg)" if "history tie db q ?s' = Reply_ok pg"
      for tie db q pg
      using history_records_subset [OF that] gone by auto
    have g: "g_count g = length (filter (\<lambda>r. predictedClass r = g_id g \<and> scanId r \<noteq> i) (store s))"
      if "g \<in> set (aggregateByClass (store ?s'))" for g
    proof -
      from that obtain c where "g = group_of (store ?s') c"
        by (auto simp: aggregateByClass_def)
      then show ?thesis
        unfolding st by (simp add: group_of_def Let_def conj_commute)
    qed
    have again: "delete_history True i ?s' = (Reply_ok Success_true, ?s')"
      using deleteOne_unknown [OF gone] by (simp add: delete_history_def)
    from st h g again show ?thesis by blast
  qed
  from a b c show ?thesis by blast
qed

lemma history_after_delete:
  "history tie True (page_query None None)
       (holding [sample_scan ''aa'' (Some ''Normal'') (Some (1 / 2)) 2])
     = Reply_ok \<lparr>hp_records = [sample_scan ''aa'' (Some ''Normal'') (Some (1 / 2)) 2],
         hp_total = 1, hp_page = 1, hp_limit = 20, hp_pages = Some 1\<rparr>"
  by (simp add: history_answer [OF default_query castable_page_query store_takes_small(2)]
      holding_store matches_page_query newest_first_def mongo_limit_def pages_values)

lemma aggregate_after_delete:
  "aggregateByClass [sample_scan ''aa'' (Some ''Normal'') (Some (1 / 2)) 2]
     = [\<lparr>g_id = Some ''Normal'', g_count = 1, g_avgConfidence = Some (1 / 2)\<rparr>]"
  by (simp add: aggregateByClass_def sample_scan_def group_of_def mongo_avg_def)

theorem delete_history_removes_record_witness:
  "snd (delete_history True ''a'' (holding (timeline 2)))
     = holding [sample_scan ''aa'' (Some ''Normal'') (Some (1 / 2)) 2]
   \<and> ''a'' \<notin> scanId ` set [sample_scan ''aa'' (Some ''Normal'') (Some (1 / 2)) 2]
   \<and> (1 :: nat) = length (filter (\<lambda>r. predictedClass r = Some ''Normal'' \<and> scanId r \<noteq> ''a'')
         (timeline 2))
   \<and> delete_history True ''a'' (holding [sample_scan ''aa'' (Some ''Normal'') (Some (1 / 2)) 2])
     = (Reply_ok Success_true, holding [sample_scan ''aa'' (Some ''Normal'') (Some (1 / 2)) 2])
   \<and> delete_history True ''zz'' (holding (timeline 2)) = (Reply_ok Success_true, holding (timeline 2))"
proof -
  let ?rest = "[sample_scan ''aa'' (Some ''Normal'') (Some (1 / 2)) 2]"
  let ?g = "\<lparr>g_id = Some ''Normal'', g_count = 1, g_avgConfidence = Some (1 / 2)\<rparr>"
  have d: "distinct (map scanId (store (holding (timeline 2))))"
    by (simp add: holding_store timeline_2 scanId_sample_scan)
  have u: "''zz'' \<notin> scanId ` set (store (holding (timeline 2)))"
    by (simp add: holding_store timeline_2 scanId_sample_scan)
  have s': "snd (delete_history True ''a'' (holding (timeline 2))) = holding ?rest"
    by (simp add: delete_history_def holding_def timeline_2 scanId_sample_scan)
  note t = delete_history_removes_record [of "''a''" "holding (timeline 2)", unfolded s']
  from t d history_after_delete [of "\<lambda>r. 0"]
  have h: "''a'' \<notin> scanId ` set (hp_records
       \<lparr>hp_records = ?rest, hp_total = 1, hp_page = 1, hp_limit = 20, hp_pages = Some 1\<rparr>)"
    by blast
  have "?g \<in> set (aggregateByClass (store (holding ?rest)))"
    by (simp add: holding_store aggregate_after_delete)
  with t d have "g_count ?g = length (filter (\<lambda>r. predictedClass r = g_id ?g \<and> scanId r \<noteq> ''a'')
         (store (holding (timeline 2))))"
    by blast
  then have g: "(1 :: nat) = length (filter (\<lambda>r. predictedClass r = Some ''Normal'' \<and> scanId r \<noteq> ''a'')
         (timeline 2))"
    by (simp add: holding_store)
  from t d have again: "delete_history True ''a'' (holding ?rest) = (Reply_ok Success_true, holding ?rest)"
    by blast
  from delete_history_removes_record [of "''zz''" "holding (timeline 2)"] u
  have z: "delete_history True ''zz'' (holding (timeline 2)) = (Reply_ok Success_true, holding (timeline 2))"
    by blast
  from s' h g again z show ?thesis by simp
qed

text \<open>
  The claim as stated says an unknown identifier is answered with NotFound (404). The
  handler never looks at what \<open>deleteOne\<close> reports.
\<close>

theorem delete_unknown_is_success_counterexample:
  "map scanId (store (holding (timeline 2))) = [''a'', ''aa'']
   \<and> delete_history True ''zz'' (holding (timeline 2)) = (Reply_ok Success_true, holding (timeline 2))"
  by (simp add: delete_history_def holding_def timeline_2 scanId_sample_scan)

subsection \<open>Aggregation by class\<close>

lemma sum_list_indicator:
  "distinct cs \<Longrightarrow> a \<in> set cs \<Longrightarrow> sum_list (map (\<lambda>c. if a = c then 1 else 0) cs) = (1 :: nat)"
proof (induction cs)
  case Nil
  then show ?case by simp
next
  case (Cons c cs)
  show ?case
  proof (cases "a = c")
    case True
    with Cons.prems have "a \<notin> set cs" by simp
    then have "sum_list (map (\<lambda>c. if a = c then 1 else 0) cs) = (0 :: nat)"
      by (induction cs) auto
    with True show ?thesis by simp
  next
    case False
    with Cons show ?thesis by simp
  qed
qed

lemma sum_class_counts:
  "distinct cs \<Longrightarrow> f ` set rs \<subseteq> set cs \<Longrightarrow>
     sum_list (map (\<lambda>c. length (filter (\<lambda>r. f r = c) rs)) cs) = length rs"
proof (induction rs)
  case Nil
  show ?case by simp
next
  case (Cons r rs)
  have split: "length (filter (\<lambda>x. f x = c) (r # rs))
      = (if f r = c then 1 else 0) + length (filter (\<lambda>x. f x = c) rs)" for c
    by simp
  from Cons.prems have "f r \<in> set cs" by simp
  with Cons.prems(1) have one: "sum_list (map (\<lambda>c. if f r = c then 1 else 0) cs) = (1 :: nat)"
    by (rule sum_list_indicator)
  from Cons have ih: "sum_list (map (\<lambda>c. length (filter (\<lambda>r. f r = c) rs)) cs) = length rs"
    by simp
  show ?case
    unfolding split by (simp add: sum_list_addf one ih)
qed

lemma sum_list_insort_key:
  "sum_list (map g (insort_key k x xs)) = g x + sum_list (map g xs)" for g :: "'a \<Rightarrow> nat"
  by (induction xs) auto

lemma sum_list_sort_key:
  "sum_list (map g (sort_key k xs)) = sum_list (map g xs)" for g :: "'a \<Rightarrow> nat"
  by (induction xs) (auto simp: sum_list_insort_key)

lemma g_count_group_of: "g_count (group_of rs c) = length (filter (\<lambda>r. predictedClass r = c) rs)"
  by (simp add: group_of_def Let_def)

lemma g_id_group_of: "g_id (group_of rs c) = c"
  by (simp add: group_of_def Let_def)

lemma aggregate_sum: "sum_list (map g_count (aggregateByClass rs)) = length rs"
proof -
  have "sum_list (map g_count (aggregateByClass rs))
      = sum_list (map g_count (map (group_of rs) (remdups (map predictedClass rs))))"
    unfolding aggregateByClass_def by (rule sum_list_sort_key)
  also have "\<dots> = sum_list (map (\<lambda>c. length (filter (\<lambda>r. predictedClass r = c) rs))
                        (remdups (map predictedClass rs)))"
    by (simp add: comp_def g_count_group_of)
  also have "\<dots> = length rs"
    by (rule sum_class_counts) simp_all
  finally show ?thesis .
qed

lemma aggregate_sorted: "sorted_wrt (\<lambda>a b. g_count b \<le> g_count a) (aggregateByClass rs)"
proof -
  have "sorted (map (\<lambda>g. - int (g_count g)) (aggregateByClass rs))"
    unfolding aggregateByClass_def by (rule sorted_sort_key)
  then show ?thesis by (simp add: sorted_map)
qed

lemma aggregate_ids:
  "distinct (map g_id (aggregateByClass rs))"
  "set (map g_id (aggregateByClass rs)) = predictedClass ` set rs"
proof -
  have m: "map g_id (map (group_of rs) cs) = cs" for cs
    by (induction cs) (simp_all add: g_id_group_of)
  have "distinct (map g_id (map (group_of rs) (remdups (map predictedClass rs))))"
    unfolding m by simp
  then have "distinct (map (group_of rs) (remdups (map predictedClass rs)))"
    and inj: "inj_on g_id (set (map (group_of rs) (remdups (map predictedClass rs))))"
    by (simp_all only: distinct_map)
  then show "distinct (map g_id (aggregateByClass rs))"
    by (simp add: aggregateByClass_def distinct_map)
  have "set (map g_id (aggregateByClass rs))
      = set (map g_id (map (group_of rs) (remdups (map predictedClass rs))))"
    by (simp only: aggregateByClass_def set_map set_sort)
  then show "set (map g_id (aggregateByClass rs)) = predictedClass ` set rs"
    unfolding m by simp
qed

lemma aggregate_member:
  "g \<in> set (aggregateByClass rs) \<Longrightarrow> g = group_of rs (g_id g) \<and> g_id g \<in> predictedClass ` set rs"
  by (auto simp: aggregateByClass_def g_id_group_of)

lemma aggregate_mixed:
  "aggregateByClass mixed_store =
     [\<lparr>g_id = Some ''Normal'', g_count = 2, g_avgConfidence = Some (3 / 4)\<rparr>,
      \<lparr>g_id = Some ''COVID-19'', g_count = 1, g_avgConfidence = Some (9 / 10)\<rparr>]"
  by (simp add: aggregateByClass_def mixed_store_def sample_scan_def group_of_def mongo_avg_def)

lemma percentage_values:
  "percentage (Some (3 / 4)) = Some 75" "percentage (Some (9 / 10)) = Some 90"
  by code_simp+

lemma analytics_mixed:
  "analytics True 10 (holding mixed_store) = Reply_ok
     \<lparr>totalScans = 3, scansThisWeek = 3,
      classDistribution =
        [\<lparr>ce_class = Some ''Normal'', ce_count = 2, ce_avgConfidence = Some 75\<rparr>,
         \<lparr>ce_class = Some ''COVID-19'', ce_count = 1, ce_avgConfidence = Some 90\<rparr>]\<rparr>"
  by (simp add: analytics_def holding_store aggregate_mixed percentage_values)
    (simp add: mixed_store_def sample_scan_def)

text \<open>
  Claim C8. For every content of the store, \<open>aggregateByClass\<close> returns one group per
  predicted class that occurs, each with the number of records of that class (at least
  one) and the \<open>$avg\<close> of their confidences, which is their arithmetic mean; the groups
  are in descending order of count; and the counts add up to the number of records,
  which is \<open>totalScans\<close> of the analytics answer and \<open>total\<close> of an unfiltered history
  query.
\<close>

theorem aggregateByClass_groups:
  "sorted_wrt (\<lambda>a b. g_count b \<le> g_count a) (aggregateByClass rs)
   \<and> distinct (map g_id (aggregateByClass rs))
   \<and> set (map g_id (aggregateByClass rs)) = predictedClass ` set rs
   \<and> (\<forall>g \<in> set (aggregateByClass rs).
         g_count g = length (filter (\<lambda>r. predictedClass r = g_id g) rs)
       \<and> 0 < g_count g
       \<and> g_avgConfidence g
           = mongo_avg (map rec_confidence (filter (\<lambda>r. predictedClass r = g_id g) rs)))
   \<and> (\<forall>vs. vs \<noteq> [] \<longrightarrow> mongo_avg (map Some vs) = Some (sum_list vs / of_nat (length vs)))
   \<and> sum_list (map g_count (aggregateByClass rs)) = length rs
   \<and> (\<forall>now s a. store s = rs \<and> analytics True now s = Reply_ok a \<longrightarrow>
         sum_list (map ce_count (classDistribution a)) = totalScans a \<and> totalScans a = length rs)
   \<and> (\<forall>tie s p l pg. store s = rs \<and> history tie True (page_query p l) s = Reply_ok pg \<longrightarrow>
         hp_total pg = sum_list (map g_count (aggregateByClass rs)))"
proof -
  have mem: "g_count g = length (filter (\<lambda>r. predictedClass r = g_id g) rs)
       \<and> 0 < g_count g
       \<and> g_avgConfidence g
           = mongo_avg (map rec_confidence (filter (\<lambda>r. predictedClass r = g_id g) rs))"
    if "g \<in> set (aggregateByClass rs)" for g
  proof -
    from aggregate_member [OF that] have g: "g = group_of rs (g_id g)"
      and c: "g_id g \<in> predictedClass ` set rs" by simp_all
    from c have "filter (\<lambda>r. predictedClass r = g_id g) rs \<noteq> []"
      by (auto simp: filter_empty_conv)
    then have "0 < length (filter (\<lambda>r. predictedClass r = g_id g) rs)" by simp
    moreover have "g_count g = length (filter (\<lambda>r. predictedClass r = g_id g) rs)"
      by (subst g) (simp add: group_of_def Let_def)
    moreover have "g_avgConfidence g
           = mongo_avg (map rec_confidence (filter (\<lambda>r. predictedClass r = g_id g) rs))"
      by (subst g) (simp add: group_of_def Let_def)
    ultimately show ?thesis by simp
  qed
  have avg: "mongo_avg (map Some vs) = Some (sum_list vs / of_nat (length vs))" if "vs \<noteq> []" for vs
  proof -
    have "[v. Some v \<leftarrow> map Some vs] = vs" by (induction vs) simp_all
    with that show ?thesis by (simp add: mongo_avg_def Let_def)
  qed
  have an: "sum_list (map ce_count (classDistribution a)) = totalScans a \<and> totalScans a = length rs"
    if "store s = rs \<and> analytics True now s = Reply_ok a" for now s a
  proof -
    from that have a: "a = \<lparr>totalScans = length rs,
         scansThisWeek = length (filter (\<lambda>r. now - 7 * 24 * 3600 * 1000 \<le> createdAt r) rs),
         classDistribution = map (\<lambda>d. \<lparr>ce_class = g_id d, ce_count = g_count d,
                       ce_avgConfidence = percentage (g_avgConfidence d)\<rparr>) (aggregateByClass rs)\<rparr>"
      by (auto simp: analytics_def)
    show ?thesis
      by (subst (1 2 3) a) (simp add: comp_def aggregate_sum)
  qed
  have hi: "hp_total pg = sum_list (map g_count (aggregateByClass rs))"
    if "store s = rs \<and> history tie True (page_query p l) s = Reply_ok pg" for tie s p l pg
  proof -
    from that have "hp_total pg = length (filter (matches (page_query p l)) rs)"
      by (auto dest: history_total)
    then show ?thesis by (simp add: matches_page_query aggregate_sum)
  qed
  from aggregate_sorted aggregate_ids mem avg aggregate_sum an hi show ?thesis
    by blast
qed

lemma history_mixed:
  "history tie True (page_query None None) (holding mixed_store) = Reply_ok
     \<lparr>hp_records = rev mixed_store, hp_total = 3, hp_page = 1, hp_limit = 20,
      hp_pages = Some 1\<rparr>"
proof -
  have "sorted_wrt (\<lambda>a b. createdAt a < createdAt b) mixed_store"
    by (simp add: mixed_store_def createdAt_sample_scan)
  then have n: "newest_first tie mixed_store = rev mixed_store"
    by (rule newest_first_increasing)
  have l: "length mixed_store = 3" by (simp add: mixed_store_def)
  show ?thesis
    by (simp add: history_answer [OF default_query castable_page_query store_takes_small(2)]
        holding_store matches_page_query n l mongo_limit_def pages_values)
qed

theorem aggregateByClass_groups_witness:
  "aggregateByClass mixed_store =
     [\<lparr>g_id = Some ''Normal'', g_count = 2, g_avgConfidence = Some (3 / 4)\<rparr>,
      \<lparr>g_id = Some ''COVID-19'', g_count = 1, g_avgConfidence = Some (9 / 10)\<rparr>]
   \<and> length (filter (\<lambda>r. predictedClass r = Some ''Normal'') mixed_store) = 2
   \<and> mongo_avg (map Some [1 / 2, 1]) = Some (sum_list [1 / 2, 1] / of_nat (length [1 / 2, 1 :: rat]))
   \<and> sum_list (map g_count (aggregateByClass mixed_store)) = 3
   \<and> sum_list (map ce_count
        [\<lparr>ce_class = Some ''Normal'', ce_count = 2, ce_avgConfidence = Some 75\<rparr>,
         \<lparr>ce_class = Some ''COVID-19'', ce_count = 1, ce_avgConfidence = Some 90\<rparr>]) = 3
   \<and> hp_total \<lparr>hp_records = rev mixed_store, hp_total = 3, hp_page = 1, hp_limit = 20,
        hp_pages = Some 1\<rparr> = sum_list (map g_count (aggregateByClass mixed_store))"
proof -
  note t = aggregateByClass_groups [of mixed_store]
  let ?g = "\<lparr>g_id = Some ''Normal'', g_count = 2, g_avgConfidence = Some (3 / 4)\<rparr>"
  have "?g \<in> set (aggregateByClass mixed_store)"
    by (simp add: aggregate_mixed)
  with t have "g_count ?g = length (filter (\<lambda>r. predictedClass r = g_id ?g) mixed_store)"
    by blast
  then have a: "length (filter (\<lambda>r. predictedClass r = Some ''Normal'') mixed_store) = 2"
    by simp
  have "[1 / 2, 1 :: rat] \<noteq> []" by simp
  with t have b: "mongo_avg (map Some [1 / 2, 1]) = Some (sum_list [1 / 2, 1] / of_nat (length [1 / 2, 1 :: rat]))"
    by blast
  from t have "sum_list (map g_count (aggregateByClass mixed_store)) = length mixed_store"
    by blast
  then have c: "sum_list (map g_count (aggregateByClass mixed_store)) = 3"
    by (simp add: mixed_store_def)
  have "store (holding mixed_store) = mixed_store \<and> analytics True 10 (holding mixed_store) = Reply_ok
     \<lparr>totalScans = 3, scansThisWeek = 3,
      classDistribution =
        [\<lparr>ce_class = Some ''Normal'', ce_count = 2, ce_avgConfidence = Some 75\<rparr>,
         \<lparr>ce_class = Some ''COVID-19'', ce_count = 1, ce_avgConfidence = Some 90\<rparr>]\<rparr>"
    by (simp add: holding_store analytics_mixed)
  with t have "sum_list (map ce_count (classDistribution
     \<lparr>totalScans = 3, scansThisWeek = 3,
      classDistribution =
        [\<lparr>ce_class = Some ''Normal'', ce_count = 2, ce_avgConfidence = Some 75\<rparr>,
         \<lparr>ce_class = Some ''COVID-19'', ce_count = 1, ce_avgConfidence = Some 90\<rparr>]\<rparr>))
     = totalScans \<lparr>totalScans = 3, scansThisWeek = 3,
      classDistribution =
        [\<lparr>ce_class = Some ''Normal'', ce_count = 2, ce_avgConfidence = Some 75\<rparr>,
         \<lparr>ce_class = Some ''COVID-19'', ce_count = 1, ce_avgConfidence = Some 90\<rparr>]\<rparr>"
    by blast
  then have d: "sum_list (map ce_count
        [\<lparr>ce_class = Some ''Normal'', ce_count = 2, ce_avgConfidence = Some 75\<rparr>,
         \<lparr>ce_class = Some ''COVID-19'', ce_count = 1, ce_avgConfidence = Some 90\<rparr>]) = 3"
    by simp
  have "store (holding mixed_store) = mixed_store
      \<and> history (\<lambda>r. 0) True (page_query None None) (holding mixed_store) = Reply_ok
          \<lparr>hp_records = rev mixed_store, hp_total = 3, hp_page = 1, hp_limit = 20,
           hp_pages = Some 1\<rparr>"
    by (simp add: holding_store history_mixed [of "\<lambda>r. 0"])
  with t have e: "hp_total \<lparr>hp_records = rev mixed_store, hp_total = 3, hp_page = 1, hp_limit = 20,
        hp_pages = Some 1\<rparr> = sum_list (map g_count (aggregateByClass mixed_store))"
    by blast
  from aggregate_mixed a b c d e show ?thesis by blast
qed

section \<open>Properties of the client\<close>

subsection \<open>The progress indicator\<close>

lemma totalDuration_value: "totalDuration = 5400"
  by (simp add: totalDuration_def processingSteps_def)

lemma timer_progress_le: "timer_progress e \<le> 90"
  by (simp add: timer_progress_def)

lemma fire_keeps:
  assumes "settled_or_below s"
  shows "settled_or_below (fire ev s)"
proof (cases ev)
  case Effect
  with assms show ?thesis
    by (auto simp: settled_or_below_def start_effect_def split: option.splits)
next
  case Tick
  with assms show ?thesis
    by (auto simp: settled_or_below_def timer_progress_le)
next
  case (Resolve a)
  with assms show ?thesis
    by (auto simp: settled_or_below_def on_resolve_def)
next
  case (Reject m)
  with assms show ?thesis
    by (auto simp: settled_or_below_def on_reject_def)
qed (use assms in \<open>auto simp: settled_or_below_def resetDiagnosis_def\<close>)

lemma run_keeps: "settled_or_below s \<Longrightarrow> settled_or_below (run es s)"
  by (induction es arbitrary: s) (simp_all add: fire_keeps)

lemma mounted_below: "settled_or_below (mounted pd sd)"
  by (simp add: settled_or_below_def mounted_def)

lemma only_resolve_completes:
  assumes "progress s \<le> 90" and "90 < progress (fire ev s)"
  shows "\<exists>a. ev = Resolve a \<and> call s = In_flight \<and> progress (fire ev s) = 100
            \<and> call (fire ev s) = Fulfilled
            \<and> diagnosisResult (fire ev s) = Some (to_result a)"
proof (cases ev)
  case Effect
  with assms show ?thesis
    by (auto simp: start_effect_def split: option.splits if_splits)
next
  case Tick
  with assms timer_progress_le [of "elapsed s + 50"] show ?thesis
    by (auto split: if_splits)
next
  case (Resolve a)
  with assms show ?thesis
    by (auto simp: on_resolve_def split: if_splits)
next
  case (Reject m)
  with assms show ?thesis
    by (auto simp: on_reject_def split: if_splits)
qed (use assms in \<open>auto simp: resetDiagnosis_def split: if_splits\<close>)

lemmas client_defs = session_def mounted_def start_effect_def on_resolve_def on_reject_def
  resetDiagnosis_def sample_scan_data_def timer_progress_def totalDuration_value

text \<open>
  Claim C9. The value the timer writes is never above 90, whatever time has elapsed.
  After any sequence of events from the mount of the component, the progress is at most
  90, or it is 100 and the call has resolved successfully. The only event that takes the
  progress above 90 is the successful resolution of the call, which sets it to 100
  together with the diagnosis result.
\<close>

theorem progress_complete_only_on_resolve:
  "timer_progress e \<le> 90
   \<and> (progress (run es (mounted pd sd)) \<le> 90
        \<or> (progress (run es (mounted pd sd)) = 100 \<and> call (run es (mounted pd sd)) = Fulfilled))
   \<and> (\<forall>ev s. progress s \<le> 90 \<and> 90 < progress (fire ev s) \<longrightarrow>
         (\<exists>a. ev = Resolve a \<and> call s = In_flight \<and> progress (fire ev s) = 100
            \<and> call (fire ev s) = Fulfilled
            \<and> diagnosisResult (fire ev s) = Some (to_result a)))"
proof -
  have "settled_or_below (run es (mounted pd sd))"
    using mounted_below by (rule run_keeps)
  then have "progress (run es (mounted pd sd)) \<le> 90
        \<or> (progress (run es (mounted pd sd)) = 100 \<and> call (run es (mounted pd sd)) = Fulfilled)"
    by (simp add: settled_or_below_def)
  with timer_progress_le only_resolve_completes show ?thesis by blast
qed

theorem progress_complete_only_on_resolve_witness:
  "timer_progress 5400 = 90
   \<and> progress (run [Effect, Tick, Tick] session) = 5 / 3
   \<and> (progress (run [Effect, Tick, Tick] session) \<le> 90
        \<or> (progress (run [Effect, Tick, Tick] session) = 100
            \<and> call (run [Effect, Tick, Tick] session) = Fulfilled))
   \<and> progress (run [Effect, Tick, Tick, Resolve sample_api] session) = 100
   \<and> call (run [Effect, Tick, Tick] session) = In_flight
   \<and> call (run [Effect, Tick, Tick, Resolve sample_api] session) = Fulfilled"
proof -
  note t = progress_complete_only_on_resolve
    [of 5400 "[Effect, Tick, Tick]" "Some empty_patient" "Some sample_scan_data"]
  have v: "timer_progress 5400 = 90"
    using t by (simp add: timer_progress_def totalDuration_value)
  have p: "progress (run [Effect, Tick, Tick] session) = 5 / 3"
    by (simp add: client_defs)
  have q: "progress (fire (Resolve sample_api) (run [Effect, Tick, Tick] session)) = 100"
    by (simp add: client_defs)
  from t have "progress (run [Effect, Tick, Tick] session) \<le> 90
        \<or> (progress (run [Effect, Tick, Tick] session) = 100
            \<and> call (run [Effect, Tick, Tick] session) = Fulfilled)"
    unfolding session_def by blast
  moreover
  from p q have "progress (run [Effect, Tick, Tick] session) \<le> 90
      \<and> 90 < progress (fire (Resolve sample_api) (run [Effect, Tick, Tick] session))"
    by simp
  with t have "call (run [Effect, Tick, Tick] session) = In_flight
      \<and> call (fire (Resolve sample_api) (run [Effect, Tick, Tick] session)) = Fulfilled"
    by blast
  moreover have "run [Effect, Tick, Tick, Resolve sample_api] session
      = fire (Resolve sample_api) (run [Effect, Tick, Tick] session)"
    by simp
  ultimately show ?thesis using v p q by simp
qed

subsection \<open>Completion after a reset\<close>

lemma fire_keeps_in_flight: "call s = In_flight \<Longrightarrow> \<not> settles ev \<Longrightarrow> call (fire ev s) = In_flight"
  by (cases ev) (auto simp: start_effect_def resetDiagnosis_def split: option.splits)

lemma run_keeps_in_flight:
  "call s = In_flight \<Longrightarrow> \<forall>ev \<in> set es. \<not> settles ev \<Longrightarrow> call (run es s) = In_flight"
  by (induction es arbitrary: s) (simp_all add: fire_keeps_in_flight)

lemma run_append: "run (es @ fs) s = run fs (run es s)"
  by (induction es arbitrary: s) simp_all

text \<open>
  Claim C5, as amended. There is no generation counter or other guard. While the call is
  in flight, no event but its own settling changes that: a reset clears the three cells
  of the session and nothing else, and it is not a settling event. When the call then
  resolves, its continuation runs unconditionally: it stores the result in
  \<open>diagnosisResult\<close> and sets the timer that navigates to \<open>/results\<close>.
\<close>

theorem stale_completion_is_applied:
  assumes "call s = In_flight" and "\<forall>ev \<in> set es. \<not> settles ev"
  shows "\<not> settles ResetDiagnosis \<and> \<not> settles New_diagnosis
       \<and> call (run es s) = In_flight
       \<and> diagnosisResult (fire ResetDiagnosis s) = None
       \<and> diagnosisResult (run (es @ [Resolve a]) s) = Some (to_result a)
       \<and> nav_timers (run (es @ [Resolve a]) s) = nav_timers (run es s) + 1
       \<and> location (run (es @ [Resolve a, Nav_timer]) s) = Results"
proof -
  from assms have c: "call (run es s) = In_flight"
    by (rule run_keeps_in_flight)
  have r: "run (es @ [Resolve a]) s = on_resolve a (run es s)"
    by (simp add: run_append)
  have n: "run (es @ [Resolve a, Nav_timer]) s = fire Nav_timer (on_resolve a (run es s))"
    by (simp add: run_append)
  from c show ?thesis
    unfolding r n by (simp add: on_resolve_def resetDiagnosis_def)
qed

theorem stale_completion_is_applied_witness:
  "\<not> settles ResetDiagnosis \<and> \<not> settles New_diagnosis
   \<and> call (run detour (run [Effect] session)) = In_flight
   \<and> diagnosisResult (fire ResetDiagnosis (run [Effect] session)) = None
   \<and> diagnosisResult (run (detour @ [Resolve sample_api]) (run [Effect] session)) = Some (to_result sample_api)
   \<and> nav_timers (run (detour @ [Resolve sample_api]) (run [Effect] session))
       = nav_timers (run detour (run [Effect] session)) + 1
   \<and> location (run (detour @ [Resolve sample_api, Nav_timer]) (run [Effect] session)) = Results"
proof (rule stale_completion_is_applied)
  show "call (run [Effect] session) = In_flight"
    by (simp add: client_defs)
  show "\<forall>ev \<in> set detour. \<not> settles ev"
    by (simp add: detour_def)
qed

text \<open>
  The claim as stated fails: the user leaves the processing page, a reset clears the
  session, a new patient is entered, then the old call resolves. Its result lands in
  the new session and the location becomes \<open>/results\<close>, which stays, since both the
  result and the patient are present.
\<close>

theorem stale_result_shown_counterexample:
  "diagnosisResult (run [Effect, Unmount, New_diagnosis] session) = None
   \<and> location (run [Effect, Unmount, New_diagnosis] session) = Patient_details
   \<and> diagnosisResult
        (run [Effect, Unmount, New_diagnosis, Set_patient second_patient, Resolve sample_api,
              Nav_timer, Results_guard] session) = Some (to_result sample_api)
   \<and> patientData
        (run [Effect, Unmount, New_diagnosis, Set_patient second_patient, Resolve sample_api,
              Nav_timer, Results_guard] session) = Some second_patient
   \<and> location
        (run [Effect, Unmount, New_diagnosis, Set_patient second_patient, Resolve sample_api,
              Nav_timer, Results_guard] session) = Results"
  by (simp add: client_defs)

end
